theory Spec2Isabelle
  imports Complex_Main "HOL-Library.Char_ord" "HOL-Library.List_Lexorder"
begin

section \<open>Markowitz portfolio optimisation: a model of \<open>Markowitz min risk.py\<close>\<close>

subsection \<open>Floating-point values\<close>

text \<open>
  The program computes with IEEE doubles (numpy \<open>float64\<close>). A double is modelled as
  a real number or one of the three special values; rounding, overflow and the sign of
  zero are left out, so a finite result is the exact real result. What is kept is what
  the program's control flow and its results can show: numpy arithmetic never raises,
  a division by zero gives an infinity or NaN, the square root of a negative number
  gives NaN, and NaN propagates. Where a property below gives a finite value, it is the
  value in exact arithmetic, which the doubles approximate; where it gives an infinity
  for a division by zero, it is stated without the sign, which in the doubles depends
  on the sign of the zero.
\<close>

datatype float64 = Fin real | PInf | NInf | NaN

fun fneg :: "float64 \<Rightarrow> float64" where
  "fneg (Fin a) = Fin (- a)"
| "fneg PInf = NInf"
| "fneg NInf = PInf"
| "fneg NaN = NaN"

fun fadd :: "float64 \<Rightarrow> float64 \<Rightarrow> float64" where
  "fadd (Fin a) (Fin b) = Fin (a + b)"
| "fadd NaN _ = NaN"
| "fadd _ NaN = NaN"
| "fadd PInf NInf = NaN"
| "fadd NInf PInf = NaN"
| "fadd PInf _ = PInf"
| "fadd _ PInf = PInf"
| "fadd NInf _ = NInf"
| "fadd _ NInf = NInf"

definition fsub :: "float64 \<Rightarrow> float64 \<Rightarrow> float64" where
  "fsub a b = fadd a (fneg b)"

fun fmul :: "float64 \<Rightarrow> float64 \<Rightarrow> float64" where
  "fmul (Fin a) (Fin b) = Fin (a * b)"
| "fmul NaN _ = NaN"
| "fmul _ NaN = NaN"
| "fmul PInf (Fin b) = (if b = 0 then NaN else if 0 < b then PInf else NInf)"
| "fmul NInf (Fin b) = (if b = 0 then NaN else if 0 < b then NInf else PInf)"
| "fmul (Fin a) PInf = (if a = 0 then NaN else if 0 < a then PInf else NInf)"
| "fmul (Fin a) NInf = (if a = 0 then NaN else if 0 < a then NInf else PInf)"
| "fmul PInf PInf = PInf"
| "fmul PInf NInf = NInf"
| "fmul NInf PInf = NInf"
| "fmul NInf NInf = PInf"

fun fdiv :: "float64 \<Rightarrow> float64 \<Rightarrow> float64" where
  "fdiv (Fin a) (Fin b) =
     (if b \<noteq> 0 then Fin (a / b)
      else if 0 < a then PInf else if a < 0 then NInf else NaN)"
| "fdiv NaN _ = NaN"
| "fdiv _ NaN = NaN"
| "fdiv (Fin a) PInf = Fin 0"
| "fdiv (Fin a) NInf = Fin 0"
| "fdiv PInf (Fin b) = (if 0 \<le> b then PInf else NInf)"
| "fdiv NInf (Fin b) = (if 0 \<le> b then NInf else PInf)"
| "fdiv PInf PInf = NaN"
| "fdiv PInf NInf = NaN"
| "fdiv NInf PInf = NaN"
| "fdiv NInf NInf = NaN"

fun fsqrt :: "float64 \<Rightarrow> float64" where
  "fsqrt (Fin a) = (if 0 \<le> a then Fin (sqrt a) else NaN)"
| "fsqrt PInf = PInf"
| "fsqrt NInf = NaN"
| "fsqrt NaN = NaN"

text \<open>\<open>np.sum\<close> and the sums inside \<open>np.dot\<close>.\<close>

definition fsum :: "float64 list \<Rightarrow> float64" where
  "fsum xs = foldr fadd xs (Fin 0)"

subsection \<open>Vectors, matrices and numpy's shape errors\<close>

text \<open>
  A one-dimensional array or pandas Series is a list; a two-dimensional array or
  DataFrame of numbers is the list of its rows. \<open>np.dot\<close> raises \<open>ValueError\<close> when the
  shapes are not aligned; the other exceptions are Python's own.
\<close>

datatype error = ValueError | IndexError | ZeroDivisionError

type_synonym vec = "float64 list"
type_synonym matrix = "float64 list list"

definition dot :: "vec \<Rightarrow> vec \<Rightarrow> error + float64" where
  "dot a b = (if length a = length b then Inr (fsum (map2 fmul a b)) else Inl ValueError)"

definition mat_dot :: "matrix \<Rightarrow> vec \<Rightarrow> error + vec" where
  "mat_dot m v =
     (if list_all (\<lambda>r. length r = length v) m
      then Inr (map (\<lambda>r. fsum (map2 fmul r v)) m)
      else Inl ValueError)"

subsection \<open>Objective functions\<close>

text \<open>
  \<open>np.sqrt(np.dot(weights.T, np.dot(cov_matrix, weights)))\<close>: the transpose of a
  one-dimensional array is the array itself. The source writes this expression out in
  \<open>portfolio_volatility\<close>, in \<open>neg_sharpe_ratio\<close> and twice in
  \<open>plot_efficient_frontier\<close>; the model names it once.
\<close>

definition quad_sqrt :: "vec \<Rightarrow> matrix \<Rightarrow> error + float64" where
  "quad_sqrt weights cov_matrix =
     (case mat_dot cov_matrix weights of
        Inl e \<Rightarrow> Inl e
      | Inr cw \<Rightarrow> (case dot weights cw of Inl e \<Rightarrow> Inl e | Inr v \<Rightarrow> Inr (fsqrt v)))"

definition portfolio_volatility :: "vec \<Rightarrow> vec \<Rightarrow> matrix \<Rightarrow> error + float64" where
  "portfolio_volatility weights mean_returns cov_matrix = quad_sqrt weights cov_matrix"

text \<open>
  The keyword argument \<open>risk_free_rate=0.04\<close> is an optional argument: \<open>None\<close> is the
  call that leaves it out. In \<open>- (r - rf) / vol\<close> the unary minus binds tighter than
  the division. The operands are numpy scalars, so a zero divisor raises nothing.
\<close>

definition neg_sharpe_ratio :: "vec \<Rightarrow> vec \<Rightarrow> matrix \<Rightarrow> float64 option \<Rightarrow> error + float64" where
  "neg_sharpe_ratio weights mean_returns cov_matrix rfr =
     (let risk_free_rate = (case rfr of None \<Rightarrow> Fin (4 / 100) | Some r \<Rightarrow> r) in
      case dot weights mean_returns of
        Inl e \<Rightarrow> Inl e
      | Inr portfolio_return \<Rightarrow>
          (case quad_sqrt weights cov_matrix of
             Inl e \<Rightarrow> Inl e
           | Inr volatility \<Rightarrow>
               Inr (fdiv (fneg (fsub portfolio_return risk_free_rate)) volatility)))"

subsection \<open>Returns engine\<close>

text \<open>
  A DataFrame is its number of columns and the list of its rows (the number of columns
  is kept apart because a frame without rows still has its columns). The price table
  that \<open>get_price_data\<close> hands over is aligned, without missing cells: its cells
  are real numbers. The frames computed from it have \<open>float64\<close> cells.
\<close>

record 'a frame =
  ncols :: nat
  rows :: "'a list list"

definition column :: "'a frame \<Rightarrow> nat \<Rightarrow> 'a list" where
  "column df j = map (\<lambda>r. r ! j) (rows df)"

text \<open>
  \<open>DataFrame.pct_change()\<close> is \<open>data / data.shift(1) - 1\<close>: the first row has no
  predecessor and is NaN in every column.
\<close>

fun pct_change_rows :: "real list \<Rightarrow> real list list \<Rightarrow> matrix" where
  "pct_change_rows prev [] = []"
| "pct_change_rows prev (r # rs) =
     map2 (\<lambda>p0 p. fsub (fdiv (Fin p) (Fin p0)) (Fin 1)) prev r # pct_change_rows r rs"

definition pct_change :: "real frame \<Rightarrow> float64 frame" where
  "pct_change price_data =
     \<lparr>ncols = ncols price_data,
      rows = (case rows price_data of
                [] \<Rightarrow> []
              | r # rs \<Rightarrow> replicate (ncols price_data) NaN # pct_change_rows r rs)\<rparr>"

text \<open>\<open>DataFrame.dropna()\<close> removes every row that holds a NaN.\<close>

definition dropna :: "float64 frame \<Rightarrow> float64 frame" where
  "dropna df = \<lparr>ncols = ncols df, rows = filter (list_all (\<lambda>v. v \<noteq> NaN)) (rows df)\<rparr>"

text \<open>\<open>DataFrame.mean()\<close>: per column, the mean of the cells that are not NaN.\<close>

definition nanmean :: "vec \<Rightarrow> float64" where
  "nanmean xs =
     (let ys = filter (\<lambda>v. v \<noteq> NaN) xs in fdiv (fsum ys) (Fin (real (length ys))))"

definition df_mean :: "float64 frame \<Rightarrow> vec" where
  "df_mean df = map (\<lambda>j. nanmean (column df j)) [0..<ncols df]"

text \<open>
  \<open>DataFrame.cov()\<close> on a frame without NaN is \<open>np.cov(mat.T, ddof=1)\<close>: the
  deviations from the column averages, their products summed over the rows, and the
  sums multiplied by \<open>1 / fact\<close>, where \<open>fact\<close> is the number of rows minus one, replaced
  by \<open>0.0\<close> when that is not positive. \<open>calculate_returns\<close> calls it after \<open>dropna\<close>
  only.
\<close>

definition np_average :: "vec \<Rightarrow> float64" where
  "np_average xs = fdiv (fsum xs) (Fin (real (length xs)))"

definition deviations :: "float64 frame \<Rightarrow> nat \<Rightarrow> vec" where
  "deviations df j = (let c = column df j; a = np_average c in map (\<lambda>v. fsub v a) c)"

definition df_cov :: "float64 frame \<Rightarrow> matrix" where
  "df_cov df =
     (let n = length (rows df);
          fact = (if n \<le> 1 then 0 else real n - 1);
          scale = fdiv (Fin 1) (Fin fact)
      in map (\<lambda>j. map (\<lambda>k. fmul (fsum (map2 fmul (deviations df j) (deviations df k))) scale)
                       [0..<ncols df])
             [0..<ncols df])"

definition calculate_returns :: "real frame \<Rightarrow> vec \<times> matrix" where
  "calculate_returns price_data =
     (let returns = dropna (pct_change price_data);
          mean_returns = map (\<lambda>m. fmul m (Fin 365)) (df_mean returns);
          cov_matrix = map (map (\<lambda>c. fmul c (Fin 365))) (df_cov returns)
      in (mean_returns, cov_matrix))"

subsection \<open>Constrained optimiser\<close>




subsection \<open>Frontier sampler\<close>

text \<open>
  \<open>np.random.dirichlet\<close> reads and advances numpy's global generator. The generator
  state is threaded through the model, and the draw is a parameter: from a state and the
  number of assets it gives the weights and the next state.
\<close>

type_synonym point = "float64 \<times> float64 \<times> float64"

type_synonym 'g sampler = "'g \<Rightarrow> nat \<Rightarrow> vec \<times> 'g"

text \<open>The body of the loop, after the draw: return, volatility, Sharpe ratio.\<close>

definition frontier_point :: "vec \<Rightarrow> vec \<Rightarrow> matrix \<Rightarrow> error + point" where
  "frontier_point weights mean_returns cov_matrix =
     (case dot weights mean_returns of
        Inl e \<Rightarrow> Inl e
      | Inr portfolio_return \<Rightarrow>
          (case quad_sqrt weights cov_matrix of
             Inl e \<Rightarrow> Inl e
           | Inr volatility \<Rightarrow>
               Inr (portfolio_return, volatility, fdiv portfolio_return volatility)))"

fun frontier_loop :: "'g sampler \<Rightarrow> nat \<Rightarrow> 'g \<Rightarrow> vec \<Rightarrow> matrix \<Rightarrow> error + point list \<times> 'g" where
  "frontier_loop dirichlet 0 g mean_returns cov_matrix = Inr ([], g)"
| "frontier_loop dirichlet (Suc k) g mean_returns cov_matrix =
     (case dirichlet g (length mean_returns) of
        (weights, g') \<Rightarrow>
          (case frontier_point weights mean_returns cov_matrix of
             Inl e \<Rightarrow> Inl e
           | Inr p \<Rightarrow>
               (case frontier_loop dirichlet k g' mean_returns cov_matrix of
                  Inl e \<Rightarrow> Inl e
                | Inr (ps, g'') \<Rightarrow> Inr (p # ps, g''))))"

text \<open>
  The chart that is drawn: the sampled points and the optimal portfolio's
  (volatility, return) marker.
\<close>

record chart =
  samples :: "point list"
  optimal_volatility :: float64
  optimal_return :: float64

definition plot_efficient_frontier ::
  "'g sampler \<Rightarrow> 'g \<Rightarrow> vec \<Rightarrow> matrix \<Rightarrow> vec \<Rightarrow> error + chart \<times> 'g" where
  "plot_efficient_frontier dirichlet g mean_returns cov_matrix optimal_weights =
     (let num_portfolios = 10000 in
      case frontier_loop dirichlet num_portfolios g mean_returns cov_matrix of
        Inl e \<Rightarrow> Inl e
      | Inr (results, g') \<Rightarrow>
          (case dot optimal_weights mean_returns of
             Inl e \<Rightarrow> Inl e
           | Inr r \<Rightarrow>
               (case quad_sqrt optimal_weights cov_matrix of
                  Inl e \<Rightarrow> Inl e
                | Inr v \<Rightarrow>
                    Inr (\<lparr>samples = results, optimal_volatility = v, optimal_return = r\<rparr>, g'))))"

subsection \<open>The main program\<close>





subsection \<open>The specification's formulas, over the reals\<close>



definition square :: "nat \<Rightarrow> 'a list list \<Rightarrow> bool" where
  "square n S = (length S = n \<and> list_all (\<lambda>r. length r = n) S)"


text \<open>
  The returns engine as the specification words it: the simple return of asset \<open>j\<close>
  in period \<open>t \<ge> 1\<close>, the sample mean over the periods \<open>1, \<dots>, T - 1\<close> and the sample
  covariance (divisor: number of returns minus one), both times 365.
\<close>

definition simple_return :: "real frame \<Rightarrow> nat \<Rightarrow> nat \<Rightarrow> real" where
  "simple_return tbl t j = rows tbl ! t ! j / rows tbl ! (t - 1) ! j - 1"

definition sample_mean :: "real frame \<Rightarrow> nat \<Rightarrow> real" where
  "sample_mean tbl j =
     (\<Sum>t = 1..<length (rows tbl). simple_return tbl t j) / (real (length (rows tbl)) - 1)"

definition sample_cov :: "real frame \<Rightarrow> nat \<Rightarrow> nat \<Rightarrow> real" where
  "sample_cov tbl j k =
     (\<Sum>t = 1..<length (rows tbl).
        (simple_return tbl t j - sample_mean tbl j) * (simple_return tbl t k - sample_mean tbl k))
     / (real (length (rows tbl)) - 2)"

definition annualized_mean :: "real frame \<Rightarrow> vec" where
  "annualized_mean tbl = map (\<lambda>j. Fin (sample_mean tbl j * 365)) [0..<ncols tbl]"

definition annualized_cov :: "real frame \<Rightarrow> matrix" where
  "annualized_cov tbl =
     map (\<lambda>j. map (\<lambda>k. Fin (sample_cov tbl j k * 365)) [0..<ncols tbl]) [0..<ncols tbl]"

text \<open>A well-formed price table: every row has one cell per column, and no price is zero.\<close>

definition aligned :: "real frame \<Rightarrow> bool" where
  "aligned tbl = list_all (\<lambda>r. length r = ncols tbl) (rows tbl)"

definition nonzero_prices :: "real frame \<Rightarrow> bool" where
  "nonzero_prices tbl = list_all (list_all (\<lambda>p. p \<noteq> 0)) (rows tbl)"

subsection \<open>Instances of the external parameters\<close>




definition counter_dirichlet :: "nat sampler" where
  "counter_dirichlet g n =
     (if n \<le> 1 then replicate n (Fin 1)
      else Fin (1 / (real g + 2)) # Fin (1 - 1 / (real g + 2)) # replicate (n - 2) (Fin 0),
      Suc g)"

section \<open>Properties\<close>

subsection \<open>Finite inputs: the model computes the real formulas\<close>

lemma fsum_Fin: "fsum (map Fin xs) = Fin (sum_list xs)"
  by (induction xs) (simp_all add: fsum_def)

lemma fsum_map2_Fin:
  "fsum (map2 fmul (map Fin a) (map Fin b)) = Fin (sum_list (map2 (*) a b))"
proof (induction a arbitrary: b)
  case Nil
  show ?case by (simp add: fsum_def)
next
  case (Cons x a)
  show ?case
  proof (cases b)
    case Nil
    then show ?thesis by (simp add: fsum_def)
  next
    case (Cons y b')
    with Cons.IH[of b'] show ?thesis by (simp add: fsum_def)
  qed
qed










lemma sqrt_25th: "sqrt (1 / 25) = 1 / 5"
  using real_sqrt_abs2[of "1 / 5"] by simp

subsection \<open>Objective functions\<close>

text \<open>
  C10: the result of \<open>portfolio_volatility\<close> depends on the weights and the covariance
  matrix only; the mean-return argument is accepted and never used, so two calls that
  differ in that argument alone return the same value (or raise the same error).
\<close>

theorem portfolio_volatility_ignores_mean_returns:
  "portfolio_volatility weights mu1 cov_matrix = portfolio_volatility weights mu2 cov_matrix"
  by (simp add: portfolio_volatility_def)






subsection \<open>Frontier sampler\<close>

text \<open>
  C4: a sampled point's Sharpe ratio should be (return - risk-free rate) / volatility,
  the measure of the optimiser's objective. For a single asset with mean return 0.1 and
  variance 0.04 (the only weight vector is \<open>[1.0]\<close>) the sampler records 0.1 / 0.2 = 0.5,
  while the objective on the same portfolio is -(0.1 - 0.04) / 0.2 = -0.3: the sampler
  leaves the risk-free rate out.
\<close>

theorem frontier_point_omits_risk_free_rate:
  "frontier_point [Fin 1] [Fin (1 / 10)] [[Fin (1 / 25)]] = Inr (Fin (1 / 10), Fin (1 / 5), Fin (1 / 2))
   \<and> neg_sharpe_ratio [Fin 1] [Fin (1 / 10)] [[Fin (1 / 25)]] None = Inr (Fin (- (3 / 10)))"
  by (simp add: frontier_point_def neg_sharpe_ratio_def dot_def quad_sqrt_def mat_dot_def
      fsum_def fsub_def sqrt_25th)

subsection \<open>Returns engine\<close>

lemma pct_change_rows_length: "length (pct_change_rows prev rs) = length rs"
  by (induction rs arbitrary: prev) simp_all

lemma map2_nth_upt:
  "length a = n \<Longrightarrow> length b = n \<Longrightarrow> map2 f a b = map (\<lambda>j. f (a ! j) (b ! j)) [0..<n]"
  by (auto intro!: nth_equalityI)

lemma pct_change_rows_nth:
  assumes "list_all (\<lambda>r. length r = n \<and> list_all (\<lambda>p. p \<noteq> 0) r) (prev # rs)" and "i < length rs"
  shows "pct_change_rows prev rs ! i =
         map (\<lambda>j. Fin ((prev # rs) ! Suc i ! j / (prev # rs) ! i ! j - 1)) [0..<n]"
  using assms
proof (induction rs arbitrary: prev i)
  case Nil
  then show ?case by simp
next
  case (Cons r rs)
  show ?case
  proof (cases i)
    case 0
    from Cons.prems have len: "length prev = n" "length r = n"
      and nz: "\<forall>p\<in>set prev. p \<noteq> 0" by (simp_all add: list_all_iff)
    have "map2 (\<lambda>p0 p. fsub (fdiv (Fin p) (Fin p0)) (Fin 1)) prev r =
          map (\<lambda>j. fsub (fdiv (Fin (r ! j)) (Fin (prev ! j))) (Fin 1)) [0..<n]"
      using len by (simp add: map2_nth_upt)
    also have "\<dots> = map (\<lambda>j. Fin (r ! j / prev ! j - 1)) [0..<n]"
      using nz len by (simp add: fsub_def)
    finally show ?thesis using 0 by simp
  next
    case (Suc i')
    with Cons.prems have less: "i' < length rs" by simp
    from Cons.prems
    have tl: "list_all (\<lambda>r. length r = n \<and> list_all (\<lambda>p. p \<noteq> 0) r) (r # rs)" by simp
    have "pct_change_rows r rs ! i' =
         map (\<lambda>j. Fin ((r # rs) ! Suc i' ! j / (r # rs) ! i' ! j - 1)) [0..<n]"
      by (rule Cons.IH[OF tl less])
    then show ?thesis using Suc by simp
  qed
qed


lemma list_all_conj_rows:
  "aligned tbl \<Longrightarrow> nonzero_prices tbl \<Longrightarrow>
   list_all (\<lambda>r. length r = ncols tbl \<and> list_all (\<lambda>p. p \<noteq> 0) r) (rows tbl)"
  by (simp add: aligned_def nonzero_prices_def list_all_iff)

lemma pct_change_rows_eq:
  assumes "aligned tbl" and "nonzero_prices tbl" and "rows tbl = r0 # rest"
  shows "pct_change_rows r0 rest =
         map (\<lambda>t. map (\<lambda>j. Fin (simple_return tbl t j)) [0..<ncols tbl]) [1..<length (rows tbl)]"
proof (rule nth_equalityI)
  show "length (pct_change_rows r0 rest) =
        length (map (\<lambda>t. map (\<lambda>j. Fin (simple_return tbl t j)) [0..<ncols tbl]) [1..<length (rows tbl)])"
    using assms(3) by (simp add: pct_change_rows_length del: upt_Suc)
next
  fix i assume "i < length (pct_change_rows r0 rest)"
  then have i: "i < length rest" by (simp add: pct_change_rows_length)
  from list_all_conj_rows[OF assms(1,2)] assms(3)
  have all: "list_all (\<lambda>r. length r = ncols tbl \<and> list_all (\<lambda>p. p \<noteq> 0) r) (r0 # rest)" by simp
  have "[1..<length (rows tbl)] ! i = Suc i" using i assms(3) by (simp del: upt_Suc)
  then show "pct_change_rows r0 rest ! i =
      map (\<lambda>t. map (\<lambda>j. Fin (simple_return tbl t j)) [0..<ncols tbl]) [1..<length (rows tbl)] ! i"
    using i assms(3) pct_change_rows_nth[OF all i]
    by (simp add: simple_return_def del: upt_Suc)
qed

lemma dropna_Fin_rows:
  "0 < n \<Longrightarrow>
   filter (list_all (\<lambda>v. v \<noteq> NaN))
     (replicate n NaN # map (\<lambda>t. map (\<lambda>j. Fin (f t j)) [0..<n]) ts) =
   map (\<lambda>t. map (\<lambda>j. Fin (f t j)) [0..<n]) ts"
  by (cases n) (simp_all add: list_all_iff filter_id_conv)

lemma returns_frame:
  assumes "aligned tbl" and "nonzero_prices tbl" and "0 < ncols tbl"
  shows "dropna (pct_change tbl) =
         \<lparr>ncols = ncols tbl,
          rows = map (\<lambda>t. map (\<lambda>j. Fin (simple_return tbl t j)) [0..<ncols tbl])
                   [1..<length (rows tbl)]\<rparr>"
proof (cases "rows tbl")
  case Nil
  then show ?thesis by (simp add: dropna_def pct_change_def)
next
  case (Cons r0 rest)
  have "rows (pct_change tbl) =
        replicate (ncols tbl) NaN #
        map (\<lambda>t. map (\<lambda>j. Fin (simple_return tbl t j)) [0..<ncols tbl]) [1..<length (rows tbl)]"
    unfolding pct_change_def using Cons pct_change_rows_eq[OF assms(1,2) Cons]
    by (simp del: upt_Suc)
  then have "rows (dropna (pct_change tbl)) =
      filter (list_all (\<lambda>v. v \<noteq> NaN))
        (replicate (ncols tbl) NaN #
         map (\<lambda>t. map (\<lambda>j. Fin (simple_return tbl t j)) [0..<ncols tbl]) [1..<length (rows tbl)])"
    by (simp only: dropna_def frame.simps)
  also have "\<dots> =
      map (\<lambda>t. map (\<lambda>j. Fin (simple_return tbl t j)) [0..<ncols tbl]) [1..<length (rows tbl)]"
    by (rule dropna_Fin_rows[OF assms(3)])
  finally have rws: "rows (dropna (pct_change tbl)) =
      map (\<lambda>t. map (\<lambda>j. Fin (simple_return tbl t j)) [0..<ncols tbl]) [1..<length (rows tbl)]" .
  have "ncols (dropna (pct_change tbl)) = ncols tbl"
    by (simp add: dropna_def pct_change_def)
  with rws show ?thesis by (cases "dropna (pct_change tbl)") simp
qed


lemma column_Fin:
  "j < n \<Longrightarrow>
   column \<lparr>ncols = n, rows = map (\<lambda>t. map (\<lambda>j. Fin (f t j)) [0..<n]) ts\<rparr> j =
   map Fin (map (\<lambda>t. f t j) ts)"
  by (simp add: column_def)

lemma filter_notnan_Fin: "filter (\<lambda>v. v \<noteq> NaN) (map Fin xs) = map Fin xs"
  by (induction xs) simp_all

lemma nanmean_Fin: "xs \<noteq> [] \<Longrightarrow> nanmean (map Fin xs) = Fin (sum_list xs / real (length xs))"
  by (simp add: nanmean_def filter_notnan_Fin fsum_Fin)

lemma np_average_Fin:
  "xs \<noteq> [] \<Longrightarrow> np_average (map Fin xs) = Fin (sum_list xs / real (length xs))"
  by (simp add: np_average_def fsum_Fin)

lemma sum_list_upt_real: "sum_list (map g [1..<T]) = (\<Sum>t = 1..<T. g t :: real)"
  by (simp add: interv_sum_list_conv_sum_set_nat del: upt_Suc)

lemma df_mean_Fin:
  assumes "ts \<noteq> []"
  shows "df_mean \<lparr>ncols = n, rows = map (\<lambda>t. map (\<lambda>j. Fin (f t j)) [0..<n]) ts\<rparr> =
         map (\<lambda>j. Fin (sum_list (map (\<lambda>t. f t j) ts) / real (length ts))) [0..<n]"
proof -
  have "nanmean (column \<lparr>ncols = n, rows = map (\<lambda>t. map (\<lambda>j. Fin (f t j)) [0..<n]) ts\<rparr> j) =
        Fin (sum_list (map (\<lambda>t. f t j) ts) / real (length ts))" if "j < n" for j
    unfolding column_Fin[OF that] using assms by (simp add: nanmean_Fin del: map_map)
  then show ?thesis by (simp add: df_mean_def)
qed

lemma deviations_Fin:
  assumes "ts \<noteq> []" and "j < n"
  shows "deviations \<lparr>ncols = n, rows = map (\<lambda>t. map (\<lambda>j. Fin (f t j)) [0..<n]) ts\<rparr> j =
         map Fin (map (\<lambda>t. f t j - sum_list (map (\<lambda>t. f t j) ts) / real (length ts)) ts)"
proof -
  from assms(1) have avg: "np_average (map Fin (map (\<lambda>t. f t j) ts)) =
      Fin (sum_list (map (\<lambda>t. f t j) ts) / real (length ts))"
    by (simp add: np_average_Fin del: map_map)
  show ?thesis
    unfolding deviations_def column_Fin[OF assms(2)] Let_def avg
    by (simp add: fsub_def)
qed

lemma df_cov_Fin:
  assumes "2 \<le> length ts"
  shows "df_cov \<lparr>ncols = n, rows = map (\<lambda>t. map (\<lambda>j. Fin (f t j)) [0..<n]) ts\<rparr> =
         map (\<lambda>j. map (\<lambda>k.
               Fin (sum_list (map (\<lambda>t.
                      (f t j - sum_list (map (\<lambda>t. f t j) ts) / real (length ts)) *
                      (f t k - sum_list (map (\<lambda>t. f t k) ts) / real (length ts))) ts)
                    / (real (length ts) - 1)))
               [0..<n]) [0..<n]"
proof -
  let ?df = "\<lparr>ncols = n, rows = map (\<lambda>t. map (\<lambda>j. Fin (f t j)) [0..<n]) ts\<rparr>"
  let ?m = "\<lambda>j. sum_list (map (\<lambda>t. f t j) ts) / real (length ts)"
  from assms have ne: "ts \<noteq> []" by auto
  have cell: "fmul (fsum (map2 fmul (deviations ?df j) (deviations ?df k)))
                 (fdiv (Fin 1) (Fin (real (length ts) - 1))) =
        Fin (sum_list (map (\<lambda>t. (f t j - ?m j) * (f t k - ?m k)) ts) / (real (length ts) - 1))"
    if "j < n" and "k < n" for j k
  proof -
    have "fsum (map2 fmul (deviations ?df j) (deviations ?df k)) =
          Fin (sum_list (map (\<lambda>t. (f t j - ?m j) * (f t k - ?m k)) ts))"
      unfolding deviations_Fin[OF ne that(1)] deviations_Fin[OF ne that(2)] fsum_map2_Fin
      by (simp add: map2_map_map)
    moreover from assms have "real (length ts) - 1 \<noteq> 0" by simp
    ultimately show ?thesis by simp
  qed
  from assms have fact: "(if length ts \<le> 1 then 0 else real (length ts) - 1) = real (length ts) - 1"
    by simp
  show ?thesis
    unfolding df_cov_def Let_def frame.simps length_map fact
    using cell by simp
qed


lemma ncols_returns: "ncols (dropna (pct_change tbl)) = ncols tbl"
  by (simp add: dropna_def pct_change_def)

lemma length_periods: "1 \<le> T \<Longrightarrow> real (length [1..<T]) = real T - 1"
  by (simp del: upt_Suc)

lemma calculate_returns_mean:
  assumes "aligned tbl" and "nonzero_prices tbl" and "2 \<le> length (rows tbl)"
  shows "fst (calculate_returns tbl) = annualized_mean tbl"
proof (cases "ncols tbl = 0")
  case True
  then show ?thesis
    by (simp add: calculate_returns_def Let_def df_mean_def ncols_returns annualized_mean_def)
next
  case False
  then have pos: "0 < ncols tbl" by simp
  from assms(3) have ne: "[1..<length (rows tbl)] \<noteq> []" and one: "1 \<le> length (rows tbl)"
    by auto
  have "df_mean (dropna (pct_change tbl)) = map (\<lambda>j. Fin (sample_mean tbl j)) [0..<ncols tbl]"
    unfolding returns_frame[OF assms(1,2) pos] df_mean_Fin[OF ne] sum_list_upt_real
      length_periods[OF one] sample_mean_def ..
  then show ?thesis
    by (simp add: calculate_returns_def Let_def annualized_mean_def)
qed

lemma calculate_returns_cov:
  assumes "aligned tbl" and "nonzero_prices tbl" and "3 \<le> length (rows tbl)"
  shows "snd (calculate_returns tbl) = annualized_cov tbl"
proof (cases "ncols tbl = 0")
  case True
  then show ?thesis
    by (simp add: calculate_returns_def Let_def df_cov_def ncols_returns annualized_cov_def)
next
  case False
  then have pos: "0 < ncols tbl" by simp
  from assms(3) have two: "2 \<le> length [1..<length (rows tbl)]" and one: "1 \<le> length (rows tbl)"
    by simp_all
  have eq: "real (length (rows tbl)) - 1 - 1 = real (length (rows tbl)) - 2" by simp
  have "df_cov (dropna (pct_change tbl)) =
        map (\<lambda>j. map (\<lambda>k. Fin (sample_cov tbl j k)) [0..<ncols tbl]) [0..<ncols tbl]"
    unfolding returns_frame[OF assms(1,2) pos] df_cov_Fin[OF two] sum_list_upt_real
      length_periods[OF one] sample_cov_def sample_mean_def eq ..
  then show ?thesis
    by (simp add: calculate_returns_def Let_def annualized_cov_def comp_def)
qed


text \<open>
  C2, as claimed: for every aligned price table the results are the sample mean and the
  sample covariance of the simple returns, the first period alone being dropped. With
  two rows of prices there is one return, and the covariance that \<open>calculate_returns\<close>
  gives is NaN. With a price of zero the returns are infinite or NaN, and \<open>dropna\<close>
  removes the period whose return is \<open>0 / 0\<close> together with the first.
\<close>

theorem calculate_returns_undefined_cases_counterexample:
  "calculate_returns \<lparr>ncols = 1, rows = [[1], [2]]\<rparr> = ([Fin 365], [[NaN]])
   \<and> rows (dropna (pct_change \<lparr>ncols = 1, rows = [[0], [0], [1], [2]]\<rparr>)) = [[PInf], [Fin 1]]
   \<and> calculate_returns \<lparr>ncols = 1, rows = [[0], [0], [1], [2]]\<rparr> = ([PInf], [[NaN]])"
  by (simp add: calculate_returns_def pct_change_def dropna_def df_mean_def df_cov_def
      column_def nanmean_def deviations_def np_average_def fsum_def fsub_def)

lemma df_cov_single_row:
  "df_cov \<lparr>ncols = n, rows = [map (\<lambda>j. Fin (f j)) [0..<n]]\<rparr> = replicate n (replicate n NaN)"
proof -
  let ?df = "\<lparr>ncols = n, rows = [map (\<lambda>j. Fin (f j)) [0..<n]]\<rparr>"
  have dev: "deviations ?df j = [Fin 0]" if "j < n" for j
    using that by (simp add: deviations_def column_def np_average_def fsum_def fsub_def)
  have cell: "fmul (fsum (map2 fmul (deviations ?df j) (deviations ?df k))) PInf = NaN"
    if "j < n" and "k < n" for j k
    by (simp add: dev[OF that(1)] dev[OF that(2)] fsum_def)
  have row: "map (\<lambda>k. fmul (fsum (map2 fmul (deviations ?df j) (deviations ?df k)))
                     PInf) [0..<n] = replicate n NaN" if "j < n" for j
  proof -
    have "map (\<lambda>k. fmul (fsum (map2 fmul (deviations ?df j) (deviations ?df k)))
                     PInf) [0..<n] = map (\<lambda>k. NaN) [0..<n]"
      by (rule map_cong[OF refl]) (simp add: cell[OF that])
    then show ?thesis by (simp add: map_replicate_const)
  qed
  have "map (\<lambda>j. map (\<lambda>k. fmul (fsum (map2 fmul (deviations ?df j) (deviations ?df k)))
                     PInf) [0..<n]) [0..<n] = map (\<lambda>j. replicate n NaN) [0..<n]"
    by (rule map_cong[OF refl]) (simp add: row)
  then show ?thesis
    by (simp add: df_cov_def map_replicate_const)
qed

lemma calculate_returns_cov_two_rows:
  assumes "aligned tbl" and "nonzero_prices tbl" and "length (rows tbl) = 2"
  shows "snd (calculate_returns tbl) =
         replicate (ncols tbl) (replicate (ncols tbl) NaN)"
proof (cases "ncols tbl = 0")
  case True
  then show ?thesis
    by (simp add: calculate_returns_def Let_def df_cov_def ncols_returns)
next
  case False
  then have pos: "0 < ncols tbl" by simp
  from assms(3) have ts: "[1..<length (rows tbl)] = [1]" by (simp add: numeral_2_eq_2)
  have "df_cov (dropna (pct_change tbl)) = replicate (ncols tbl) (replicate (ncols tbl) NaN)"
    unfolding returns_frame[OF assms(1,2) pos] ts list.map by (rule df_cov_single_row)
  then show ?thesis
    by (simp add: calculate_returns_def Let_def)
qed

text \<open>
  C2, amended: for an aligned price table without a zero price, \<open>calculate_returns\<close>
  computes the simple returns \<open>p[t] / p[t-1] - 1\<close> per asset and, the table having a
  column, keeps the periods \<open>1, \<dots>, T - 1\<close> (the first, undefined one is dropped). Its
  first result is the column-wise sample mean of these returns times 365 when the table
  has at least two rows. Its second result is their sample covariance times 365 when
  the table has at least three rows, and a matrix of NaN when it has exactly two.
\<close>

theorem calculate_returns_algorithm:
  assumes "aligned tbl" and "nonzero_prices tbl"
  shows "(0 < ncols tbl \<longrightarrow>
            rows (dropna (pct_change tbl)) =
              map (\<lambda>t. map (\<lambda>j. Fin (simple_return tbl t j)) [0..<ncols tbl])
                [1..<length (rows tbl)])
       \<and> (2 \<le> length (rows tbl) \<longrightarrow> fst (calculate_returns tbl) = annualized_mean tbl)
       \<and> (3 \<le> length (rows tbl) \<longrightarrow> snd (calculate_returns tbl) = annualized_cov tbl)
       \<and> (length (rows tbl) = 2 \<longrightarrow>
            snd (calculate_returns tbl) = replicate (ncols tbl) (replicate (ncols tbl) NaN))"
proof (intro conjI impI)
  assume "0 < ncols tbl"
  then show "rows (dropna (pct_change tbl)) =
      map (\<lambda>t. map (\<lambda>j. Fin (simple_return tbl t j)) [0..<ncols tbl]) [1..<length (rows tbl)]"
    by (simp only: returns_frame[OF assms] frame.simps)
next
  assume "2 \<le> length (rows tbl)"
  then show "fst (calculate_returns tbl) = annualized_mean tbl"
    by (rule calculate_returns_mean[OF assms])
next
  assume "3 \<le> length (rows tbl)"
  then show "snd (calculate_returns tbl) = annualized_cov tbl"
    by (rule calculate_returns_cov[OF assms])
next
  assume "length (rows tbl) = 2"
  then show "snd (calculate_returns tbl) = replicate (ncols tbl) (replicate (ncols tbl) NaN)"
    by (rule calculate_returns_cov_two_rows[OF assms])
qed

lemma upt_2: "[0..<2] = [0, 1]"
  by (simp add: numeral_2_eq_2)

theorem calculate_returns_algorithm_witness:
  "aligned \<lparr>ncols = 2, rows = [[1, 2], [2, 2], [2, 1]]\<rparr>
   \<and> nonzero_prices \<lparr>ncols = 2, rows = [[1, 2], [2, 2], [2, 1]]\<rparr>
   \<and> 3 \<le> length (rows \<lparr>ncols = 2, rows = [[1, 2], [2, 2], [2, 1 :: real]]\<rparr>)
   \<and> rows (dropna (pct_change \<lparr>ncols = 2, rows = [[1, 2], [2, 2], [2, 1]]\<rparr>)) =
       [[Fin 1, Fin 0], [Fin 0, Fin (- (1 / 2))]]
   \<and> calculate_returns \<lparr>ncols = 2, rows = [[1, 2], [2, 2], [2, 1]]\<rparr> =
       ([Fin (365 / 2), Fin (- (365 / 4))],
        [[Fin (365 / 2), Fin (365 / 4)], [Fin (365 / 4), Fin (365 / 8)]])
   \<and> aligned \<lparr>ncols = 2, rows = [[1, 2], [2, 2]]\<rparr>
   \<and> nonzero_prices \<lparr>ncols = 2, rows = [[1, 2], [2, 2]]\<rparr>
   \<and> length (rows \<lparr>ncols = 2, rows = [[1, 2], [2, 2 :: real]]\<rparr>) = 2
   \<and> calculate_returns \<lparr>ncols = 2, rows = [[1, 2], [2, 2]]\<rparr> =
       ([Fin 365, Fin 0], [[NaN, NaN], [NaN, NaN]])"
proof -
  let ?tbl = "\<lparr>ncols = 2, rows = [[1, 2], [2, 2], [2, 1 :: real]]\<rparr>"
  have al: "aligned ?tbl" by (simp add: aligned_def)
  have nz: "nonzero_prices ?tbl" by (simp add: nonzero_prices_def)
  have sr: "simple_return ?tbl (Suc 0) 0 = 1" "simple_return ?tbl (Suc (Suc 0)) 0 = 0"
    "simple_return ?tbl (Suc 0) (Suc 0) = 0" "simple_return ?tbl (Suc (Suc 0)) (Suc 0) = - (1 / 2)"
    by (simp_all add: simple_return_def)
  have ts: "[1..<3] = [1, 2]" by (simp add: numeral_3_eq_3 numeral_2_eq_2)
  have m: "sample_mean ?tbl 0 = 1 / 2" "sample_mean ?tbl (Suc 0) = - (1 / 4)"
    by (simp_all add: sample_mean_def sr)
  have c: "sample_cov ?tbl 0 0 = 1 / 2" "sample_cov ?tbl 0 (Suc 0) = 1 / 4"
    "sample_cov ?tbl (Suc 0) 0 = 1 / 4" "sample_cov ?tbl (Suc 0) (Suc 0) = 1 / 8"
    by (simp_all add: sample_cov_def sr m)
  have am: "annualized_mean ?tbl = [Fin (365 / 2), Fin (- (365 / 4))]"
    by (simp add: annualized_mean_def upt_2 m)
  have ac: "annualized_cov ?tbl = [[Fin (365 / 2), Fin (365 / 4)], [Fin (365 / 4), Fin (365 / 8)]]"
    by (simp add: annualized_cov_def upt_2 c)
  from calculate_returns_algorithm[OF al nz] al nz am ac
  have three: "aligned ?tbl \<and> nonzero_prices ?tbl \<and> 3 \<le> length (rows ?tbl)
      \<and> rows (dropna (pct_change ?tbl)) = [[Fin 1, Fin 0], [Fin 0, Fin (- (1 / 2))]]
      \<and> calculate_returns ?tbl =
          ([Fin (365 / 2), Fin (- (365 / 4))],
           [[Fin (365 / 2), Fin (365 / 4)], [Fin (365 / 4), Fin (365 / 8)]])"
    by (simp add: prod_eq_iff upt_2 ts sr)
  let ?two = "\<lparr>ncols = 2, rows = [[1, 2], [2, 2 :: real]]\<rparr>"
  have al2: "aligned ?two" by (simp add: aligned_def)
  have nz2: "nonzero_prices ?two" by (simp add: nonzero_prices_def)
  have sr2: "simple_return ?two (Suc 0) 0 = 1" "simple_return ?two (Suc 0) (Suc 0) = 0"
    by (simp_all add: simple_return_def)
  have am2: "annualized_mean ?two = [Fin 365, Fin 0]"
    by (simp add: annualized_mean_def upt_2 sample_mean_def sr2)
  from calculate_returns_algorithm[OF al2 nz2] al2 nz2 am2
  have two: "aligned ?two \<and> nonzero_prices ?two \<and> length (rows ?two) = 2
      \<and> calculate_returns ?two = ([Fin 365, Fin 0], [[NaN, NaN], [NaN, NaN]])"
    by (simp add: prod_eq_iff numeral_2_eq_2)
  from three two show ?thesis by blast
qed

text \<open>
  C6, as claimed: a price table with fewer than two observations makes
  \<open>calculate_returns\<close> fail. It does not: on a table of one row it returns a mean vector
  and a covariance matrix, both NaN.
\<close>

theorem calculate_returns_single_row_counterexample:
  "calculate_returns \<lparr>ncols = 1, rows = [[100]]\<rparr> = ([NaN], [[NaN]])"
  by (simp add: calculate_returns_def pct_change_def dropna_def df_mean_def df_cov_def
      column_def nanmean_def deviations_def np_average_def fsum_def)

lemma short_table_returns:
  assumes "length (rows tbl) < 2" and "0 < ncols tbl"
  shows "rows (dropna (pct_change tbl)) = []"
proof (cases "rows tbl")
  case Nil
  then show ?thesis by (simp add: dropna_def pct_change_def)
next
  case (Cons r rest)
  with assms(1) have "rest = []" by simp
  with Cons assms(2) show ?thesis
    by (cases "ncols tbl") (simp_all add: dropna_def pct_change_def)
qed

text \<open>
  C6, amended: for every price table with fewer than two rows \<open>calculate_returns\<close>
  raises nothing and returns a mean vector with one NaN per column and a covariance
  matrix filled with NaN.
\<close>

theorem calculate_returns_short_table:
  assumes "length (rows tbl) < 2"
  shows "calculate_returns tbl =
         (replicate (ncols tbl) NaN, replicate (ncols tbl) (replicate (ncols tbl) NaN))"
proof (cases "ncols tbl = 0")
  case True
  then show ?thesis
    by (simp add: calculate_returns_def Let_def df_mean_def df_cov_def ncols_returns)
next
  case False
  then have "rows (dropna (pct_change tbl)) = []"
    using short_table_returns[OF assms] by simp
  then have mean: "df_mean (dropna (pct_change tbl)) = replicate (ncols tbl) NaN"
    and cov: "df_cov (dropna (pct_change tbl)) = replicate (ncols tbl) (replicate (ncols tbl) NaN)"
    by (simp_all add: df_mean_def df_cov_def ncols_returns column_def nanmean_def
        deviations_def np_average_def fsum_def map_replicate_const)
  show ?thesis
    unfolding calculate_returns_def Let_def mean cov by simp
qed

theorem calculate_returns_short_table_witness:
  "length (rows \<lparr>ncols = 2, rows = [[100, 50 :: real]]\<rparr>) < 2
   \<and> calculate_returns \<lparr>ncols = 2, rows = [[100, 50]]\<rparr> = ([NaN, NaN], [[NaN, NaN], [NaN, NaN]])"
proof -
  have "length (rows \<lparr>ncols = 2, rows = [[100, 50 :: real]]\<rparr>) < 2" by simp
  from this calculate_returns_short_table[OF this] show ?thesis
    by (simp add: numeral_2_eq_2)
qed

text \<open>
  C5, as claimed: a column of zero variance makes the returns engine raise before the
  covariance matrix reaches the solver. It does not: with a constant first price column
  \<open>calculate_returns\<close> returns a covariance matrix whose first row and column are zero.
\<close>

theorem calculate_returns_constant_price_counterexample:
  "calculate_returns \<lparr>ncols = 2, rows = [[1, 1], [1, 2], [1, 2]]\<rparr> =
     ([Fin 0, Fin (365 / 2)], [[Fin 0, Fin 0], [Fin 0, Fin (365 / 2)]])"
  by (simp add: calculate_returns_def pct_change_def dropna_def df_mean_def df_cov_def
      column_def nanmean_def deviations_def np_average_def fsum_def fsub_def numeral_2_eq_2)

lemma column_nth: "t < length (rows tbl) \<Longrightarrow> column tbl j ! t = rows tbl ! t ! j"
  by (simp add: column_def)

lemma price_nonzero:
  assumes "aligned tbl" and "nonzero_prices tbl" and "t < length (rows tbl)" and "j < ncols tbl"
  shows "rows tbl ! t ! j \<noteq> 0"
proof -
  from assms(3) have mem: "rows tbl ! t \<in> set (rows tbl)" by simp
  with assms(1) have "length (rows tbl ! t) = ncols tbl" by (simp add: aligned_def list_all_iff)
  with assms(4) have "rows tbl ! t ! j \<in> set (rows tbl ! t)" by simp
  with mem assms(2) show ?thesis by (auto simp: nonzero_prices_def list_all_iff)
qed

lemma constant_column_returns:
  assumes "aligned tbl" and "nonzero_prices tbl" and "j < ncols tbl"
    and "column tbl j = replicate (length (rows tbl)) c"
    and "1 \<le> t" and "t < length (rows tbl)"
  shows "simple_return tbl t j = 0"
proof -
  from assms(6) have t1: "t - 1 < length (rows tbl)" by simp
  have a: "rows tbl ! t ! j = c"
    using column_nth[OF assms(6), of j] assms(4,6) by simp
  have b: "rows tbl ! (t - 1) ! j = c"
    using column_nth[OF t1, of j] assms(4) t1 by simp
  from price_nonzero[OF assms(1,2) assms(6) assms(3)] a have "c \<noteq> 0" by simp
  with a b show ?thesis by (simp add: simple_return_def)
qed

lemma proportional_column_returns:
  assumes "aligned tbl" and "nonzero_prices tbl" and "k < ncols tbl"
    and "column tbl k = map ((*) c) (column tbl j)"
    and "1 \<le> t" and "t < length (rows tbl)"
  shows "simple_return tbl t k = simple_return tbl t j"
proof -
  from assms(6) have t1: "t - 1 < length (rows tbl)" by simp
  have len: "length (column tbl j) = length (rows tbl)" by (simp add: column_def)
  have a: "rows tbl ! t ! k = c * rows tbl ! t ! j"
    using column_nth[OF assms(6), of k] column_nth[OF assms(6), of j] assms(4,6) len by simp
  have b: "rows tbl ! (t - 1) ! k = c * rows tbl ! (t - 1) ! j"
    using column_nth[OF t1, of k] column_nth[OF t1, of j] assms(4) t1 len by simp
  from price_nonzero[OF assms(1,2) assms(6) assms(3)] a have "c \<noteq> 0" by auto
  with a b show ?thesis by (simp add: simple_return_def)
qed

lemma annualized_cov_nth:
  "j < ncols tbl \<Longrightarrow> k < ncols tbl \<Longrightarrow>
   annualized_cov tbl ! j ! k = Fin (sample_cov tbl j k * 365)"
  by (simp add: annualized_cov_def)

lemma annualized_cov_row:
  "j < ncols tbl \<Longrightarrow>
   annualized_cov tbl ! j = map (\<lambda>k. Fin (sample_cov tbl j k * 365)) [0..<ncols tbl]"
  by (simp add: annualized_cov_def)

lemma sample_mean_cong:
  assumes "\<And>t. 1 \<le> t \<Longrightarrow> t < length (rows tbl) \<Longrightarrow> simple_return tbl t j = simple_return tbl t k"
  shows "sample_mean tbl j = sample_mean tbl k"
  unfolding sample_mean_def using assms by simp

lemma sample_cov_cong:
  assumes "\<And>t. 1 \<le> t \<Longrightarrow> t < length (rows tbl) \<Longrightarrow> simple_return tbl t j = simple_return tbl t k"
  shows "sample_cov tbl j l = sample_cov tbl k l"
proof -
  have m: "sample_mean tbl j = sample_mean tbl k"
    by (rule sample_mean_cong) (rule assms)
  have "(\<Sum>t = 1..<length (rows tbl).
          (simple_return tbl t j - sample_mean tbl j) * (simple_return tbl t l - sample_mean tbl l)) =
        (\<Sum>t = 1..<length (rows tbl).
          (simple_return tbl t k - sample_mean tbl k) * (simple_return tbl t l - sample_mean tbl l))"
    by (rule sum.cong) (simp_all add: m assms)
  then show ?thesis by (simp only: sample_cov_def)
qed

lemma sample_cov_zero_left:
  assumes "\<And>t. 1 \<le> t \<Longrightarrow> t < length (rows tbl) \<Longrightarrow> simple_return tbl t j = 0"
  shows "sample_cov tbl j l = 0"
proof -
  have "sample_mean tbl j = 0" unfolding sample_mean_def using assms by simp
  then show ?thesis unfolding sample_cov_def using assms by simp
qed

lemma sample_cov_sym: "sample_cov tbl j l = sample_cov tbl l j"
  by (simp add: sample_cov_def mult.commute)

text \<open>
  C5, amended: \<open>calculate_returns\<close> raises nothing and hands the singular matrix on.
  For an aligned table without zero prices and with at least three rows, a column of
  constant price gives a covariance matrix whose row and column for that asset are
  zero, and two columns of proportional prices (perfectly correlated returns) give two
  equal rows.
\<close>

theorem covariance_of_degenerate_columns:
  assumes "aligned tbl" and "nonzero_prices tbl" and "3 \<le> length (rows tbl)"
    and "j < ncols tbl" and "k < ncols tbl" and "l < ncols tbl"
  shows "(column tbl j = replicate (length (rows tbl)) c \<longrightarrow>
            snd (calculate_returns tbl) ! j = replicate (ncols tbl) (Fin 0)
          \<and> (\<forall>i<ncols tbl. snd (calculate_returns tbl) ! i ! j = Fin 0))
       \<and> (column tbl l = map ((*) d) (column tbl k) \<longrightarrow>
            snd (calculate_returns tbl) ! l = snd (calculate_returns tbl) ! k)"
proof (intro conjI impI allI)
  assume const: "column tbl j = replicate (length (rows tbl)) c"
  have z: "sample_cov tbl j m = 0" for m
    by (rule sample_cov_zero_left) (rule constant_column_returns[OF assms(1,2,4) const])
  show "snd (calculate_returns tbl) ! j = replicate (ncols tbl) (Fin 0)"
    unfolding calculate_returns_cov[OF assms(1-3)] annualized_cov_row[OF assms(4)]
    by (simp add: z map_replicate_const)
  fix i assume "i < ncols tbl"
  then show "snd (calculate_returns tbl) ! i ! j = Fin 0"
    unfolding calculate_returns_cov[OF assms(1-3)]
    using z[of i] by (simp add: annualized_cov_nth assms(4) sample_cov_sym[of tbl i j])
next
  assume prp: "column tbl l = map ((*) d) (column tbl k)"
  have "sample_cov tbl l m = sample_cov tbl k m" for m
    by (rule sample_cov_cong) (rule proportional_column_returns[OF assms(1,2,6) prp])
  then show "snd (calculate_returns tbl) ! l = snd (calculate_returns tbl) ! k"
    unfolding calculate_returns_cov[OF assms(1-3)]
      annualized_cov_row[OF assms(5)] annualized_cov_row[OF assms(6)]
    by simp
qed

theorem covariance_of_degenerate_columns_witness:
  "aligned \<lparr>ncols = 3, rows = [[5, 1, 3], [5, 2, 6], [5, 2, 6]]\<rparr>
   \<and> nonzero_prices \<lparr>ncols = 3, rows = [[5, 1, 3], [5, 2, 6], [5, 2, 6]]\<rparr>
   \<and> column \<lparr>ncols = 3, rows = [[5, 1, 3], [5, 2, 6], [5, 2, 6 :: real]]\<rparr> 0 = replicate 3 5
   \<and> column \<lparr>ncols = 3, rows = [[5, 1, 3], [5, 2, 6], [5, 2, 6 :: real]]\<rparr> 2 =
       map ((*) 3) (column \<lparr>ncols = 3, rows = [[5, 1, 3], [5, 2, 6], [5, 2, 6]]\<rparr> 1)
   \<and> snd (calculate_returns \<lparr>ncols = 3, rows = [[5, 1, 3], [5, 2, 6], [5, 2, 6]]\<rparr>) ! 0 =
       [Fin 0, Fin 0, Fin 0]
   \<and> snd (calculate_returns \<lparr>ncols = 3, rows = [[5, 1, 3], [5, 2, 6], [5, 2, 6]]\<rparr>) ! 2 =
       snd (calculate_returns \<lparr>ncols = 3, rows = [[5, 1, 3], [5, 2, 6], [5, 2, 6]]\<rparr>) ! 1"
proof -
  let ?tbl = "\<lparr>ncols = 3, rows = [[5, 1, 3], [5, 2, 6], [5, 2, 6 :: real]]\<rparr>"
  have al: "aligned ?tbl" by (simp add: aligned_def)
  have nz: "nonzero_prices ?tbl" by (simp add: nonzero_prices_def)
  have len: "3 \<le> length (rows ?tbl)" by simp
  have j: "0 < ncols ?tbl" and k: "1 < ncols ?tbl" and l: "2 < ncols ?tbl" by simp_all
  have c0: "column ?tbl 0 = replicate (length (rows ?tbl)) 5"
    by (simp add: column_def)
  have c2: "column ?tbl 2 = map ((*) 3) (column ?tbl 1)"
    by (simp add: column_def)
  from covariance_of_degenerate_columns[OF al nz len j k l, of 5 3] c0 c2
  have "snd (calculate_returns ?tbl) ! 0 = replicate (ncols ?tbl) (Fin 0)"
    and "snd (calculate_returns ?tbl) ! 2 = snd (calculate_returns ?tbl) ! 1"
    by blast+
  with al nz c0 c2 show ?thesis by (simp add: numeral_3_eq_3)
qed

subsection \<open>Frontier sampler: sample count and generator state\<close>

lemma frontier_loop_count:
  "frontier_loop dirichlet k g mu cov_matrix = Inr (ps, g') \<Longrightarrow>
   length ps = k \<and> g' = ((\<lambda>s. snd (dirichlet s (length mu))) ^^ k) g"
proof (induction k arbitrary: g ps g')
  case 0
  then show ?case by simp
next
  case (Suc k)
  obtain w g1 where d: "dirichlet g (length mu) = (w, g1)" by (cases "dirichlet g (length mu)")
  from Suc.prems d obtain p rest where
    rest: "frontier_loop dirichlet k g1 mu cov_matrix = Inr (rest, g')" and ps: "ps = p # rest"
    by (auto split: sum.splits prod.splits)
  from Suc.IH[OF rest] have "length rest = k"
    and "g' = ((\<lambda>s. snd (dirichlet s (length mu))) ^^ k) g1" by simp_all
  moreover have "((\<lambda>s. snd (dirichlet s (length mu))) ^^ Suc k) g =
      ((\<lambda>s. snd (dirichlet s (length mu))) ^^ k) g1"
    using d by (simp only: funpow_Suc_right o_apply snd_conv)
  ultimately show ?case using ps by simp
qed

text \<open>
  C9, amended: \<open>plot_efficient_frontier\<close> takes the mean returns, the covariance matrix
  and the optimal weights, and neither a sample count nor a seed. Whenever it returns
  it has sampled exactly 10,000 points and has advanced the global generator by 10,000
  draws, so its points depend on the generator state it finds.
\<close>

theorem plot_efficient_frontier_fixed_count:
  assumes "plot_efficient_frontier dirichlet g mean_returns cov_matrix optimal_weights = Inr (c, g')"
  shows "length (samples c) = 10000
       \<and> g' = ((\<lambda>s. snd (dirichlet s (length mean_returns))) ^^ 10000) g"
proof -
  from assms obtain ps where
    "frontier_loop dirichlet 10000 g mean_returns cov_matrix = Inr (ps, g')" and "samples c = ps"
    by (auto simp: plot_efficient_frontier_def split: sum.splits prod.splits)
  then show ?thesis using frontier_loop_count by metis
qed

lemma frontier_point_shapes:
  assumes "length w = length mu" and "square (length mu) cov_matrix"
  shows "frontier_point w mu cov_matrix =
         Inr (fsum (map2 fmul w mu),
              fsqrt (fsum (map2 fmul w (map (\<lambda>r. fsum (map2 fmul r w)) cov_matrix))),
              fdiv (fsum (map2 fmul w mu))
                (fsqrt (fsum (map2 fmul w (map (\<lambda>r. fsum (map2 fmul r w)) cov_matrix)))))"
  using assms by (simp add: frontier_point_def dot_def quad_sqrt_def mat_dot_def square_def)

lemma frontier_loop_single_asset:
  "frontier_loop counter_dirichlet k g [Fin (1 / 10)] [[Fin (1 / 25)]] =
   Inr (replicate k (Fin (1 / 10), Fin (1 / 5), Fin (1 / 2)), g + k)"
proof (induction k arbitrary: g)
  case 0
  show ?case by simp
next
  case (Suc k)
  have p: "frontier_point [Fin 1] [Fin (1 / 10)] [[Fin (1 / 25)]] =
           Inr (Fin (1 / 10), Fin (1 / 5), Fin (1 / 2))"
    by (simp add: frontier_point_def dot_def quad_sqrt_def mat_dot_def fsum_def sqrt_25th)
  have d: "counter_dirichlet g (length [Fin (1 / 10)]) = ([Fin 1], Suc g)"
    by (simp add: counter_dirichlet_def)
  show ?case
    unfolding frontier_loop.simps d prod.case p sum.case Suc.IH by simp
qed

lemma counter_dirichlet_steps: "((\<lambda>s. snd (counter_dirichlet s n)) ^^ k) g = g + k"
  by (induction k) (simp_all add: counter_dirichlet_def)

theorem plot_efficient_frontier_fixed_count_witness:
  "plot_efficient_frontier counter_dirichlet 0 [Fin (1 / 10)] [[Fin (1 / 25)]] [Fin 1] =
     Inr (\<lparr>samples = replicate 10000 (Fin (1 / 10), Fin (1 / 5), Fin (1 / 2)),
           optimal_volatility = Fin (1 / 5), optimal_return = Fin (1 / 10)\<rparr>, 10000)
   \<and> length (samples \<lparr>samples = replicate 10000 (Fin (1 / 10), Fin (1 / 5), Fin (1 / 2)),
           optimal_volatility = Fin (1 / 5), optimal_return = Fin (1 / 10)\<rparr>) = 10000
   \<and> (10000 :: nat) = ((\<lambda>s. snd (counter_dirichlet s (length [Fin (1 / 10)]))) ^^ 10000) 0"
proof -
  have run: "plot_efficient_frontier counter_dirichlet 0 [Fin (1 / 10)] [[Fin (1 / 25)]] [Fin 1] =
     Inr (\<lparr>samples = replicate 10000 (Fin (1 / 10), Fin (1 / 5), Fin (1 / 2)),
           optimal_volatility = Fin (1 / 5), optimal_return = Fin (1 / 10)\<rparr>, 10000)"
    unfolding plot_efficient_frontier_def Let_def frontier_loop_single_asset
    by (simp add: dot_def quad_sqrt_def mat_dot_def fsum_def sqrt_25th)
  from plot_efficient_frontier_fixed_count[OF run] run show ?thesis by simp
qed


lemma frontier_loop_total:
  assumes "\<And>s. length (fst (dirichlet s (length mu))) = length mu"
    and "square (length mu) cov_matrix"
  shows "\<exists>ps g'. frontier_loop dirichlet k g mu cov_matrix = Inr (ps, g')"
proof (induction k arbitrary: g)
  case 0
  show ?case by simp
next
  case (Suc k)
  obtain w g1 where d: "dirichlet g (length mu) = (w, g1)" by (cases "dirichlet g (length mu)")
  with assms(1)[of g] have "length w = length mu" by simp
  from frontier_point_shapes[OF this assms(2)] obtain p where
    p: "frontier_point w mu cov_matrix = Inr p" by blast
  from Suc.IH[of g1] obtain ps g' where "frontier_loop dirichlet k g1 mu cov_matrix = Inr (ps, g')"
    by blast
  with d p show ?case by simp
qed

lemma length_counter_dirichlet: "length (fst (counter_dirichlet s n)) = n"
  by (auto simp: counter_dirichlet_def)

lemma plot_two_assets_first_sample:
  "\<exists>c v q rest.
     plot_efficient_frontier counter_dirichlet g [Fin (3 / 10), Fin (1 / 10)]
       [[Fin 1, Fin 0], [Fin 0, Fin 1]] [Fin (1 / 2), Fin (1 / 2)] = Inr (c, g + 10000)
     \<and> samples c =
         (Fin (3 / 10 * (1 / (real g + 2)) + 1 / 10 * (1 - 1 / (real g + 2))), v, q) # rest"
proof -
  let ?mu = "[Fin (3 / 10), Fin (1 / 10)]"
  let ?cov = "[[Fin 1, Fin 0], [Fin 0, Fin 1]]"
  have sq: "square (length ?mu) ?cov" by (simp add: square_def)
  have d: "counter_dirichlet g (length ?mu) =
           ([Fin (1 / (real g + 2)), Fin (1 - 1 / (real g + 2))], Suc g)"
    by (simp add: counter_dirichlet_def)
  have len: "length [Fin (1 / (real g + 2)), Fin (1 - 1 / (real g + 2))] = length ?mu" by simp
  from frontier_point_shapes[OF len sq] obtain v q where
    p: "frontier_point [Fin (1 / (real g + 2)), Fin (1 - 1 / (real g + 2))] ?mu ?cov =
        Inr (Fin (3 / 10 * (1 / (real g + 2)) + 1 / 10 * (1 - 1 / (real g + 2))), v, q)"
    by (simp add: fsum_def mult.commute)
  from frontier_loop_total[of counter_dirichlet ?mu ?cov 9999 "Suc g", OF length_counter_dirichlet sq]
  obtain rest g' where rest: "frontier_loop counter_dirichlet 9999 (Suc g) ?mu ?cov = Inr (rest, g')"
    by blast
  from frontier_loop_count[OF rest] have g': "g' = g + 10000"
    by (simp add: counter_dirichlet_steps)
  have "(10000 :: nat) = Suc 9999" by simp
  then have loop: "frontier_loop counter_dirichlet 10000 g ?mu ?cov =
      Inr ((Fin (3 / 10 * (1 / (real g + 2)) + 1 / 10 * (1 - 1 / (real g + 2))), v, q) # rest,
           g + 10000)"
    by (simp only: frontier_loop.simps d prod.case p sum.case rest g')
  show ?thesis
    unfolding plot_efficient_frontier_def Let_def loop
    by (simp add: dot_def quad_sqrt_def mat_dot_def)
qed

text \<open>
  C9, as claimed: two calls with identical inputs give identical points. With the
  counting generator and two assets, a first call started in state 0 leaves the
  generator in state 10000, and the same call started there samples other points.
\<close>

theorem plot_efficient_frontier_repeat_counterexample:
  "map_sum id snd
     (plot_efficient_frontier counter_dirichlet 0 [Fin (3 / 10), Fin (1 / 10)]
        [[Fin 1, Fin 0], [Fin 0, Fin 1]] [Fin (1 / 2), Fin (1 / 2)]) = Inr 10000
   \<and> map_sum id (samples \<circ> fst)
       (plot_efficient_frontier counter_dirichlet 0 [Fin (3 / 10), Fin (1 / 10)]
          [[Fin 1, Fin 0], [Fin 0, Fin 1]] [Fin (1 / 2), Fin (1 / 2)])
     \<noteq> map_sum id (samples \<circ> fst)
       (plot_efficient_frontier counter_dirichlet 10000 [Fin (3 / 10), Fin (1 / 10)]
          [[Fin 1, Fin 0], [Fin 0, Fin 1]] [Fin (1 / 2), Fin (1 / 2)])"
proof -
  from plot_two_assets_first_sample[of 0] obtain c1 v1 q1 rest1 where
    r1: "plot_efficient_frontier counter_dirichlet 0 [Fin (3 / 10), Fin (1 / 10)]
          [[Fin 1, Fin 0], [Fin 0, Fin 1]] [Fin (1 / 2), Fin (1 / 2)] = Inr (c1, 10000)"
    and s1: "samples c1 = (Fin (1 / 5), v1, q1) # rest1"
    by auto
  from plot_two_assets_first_sample[of 10000] obtain c2 v2 q2 rest2 where
    r2: "plot_efficient_frontier counter_dirichlet 10000 [Fin (3 / 10), Fin (1 / 10)]
          [[Fin 1, Fin 0], [Fin 0, Fin 1]] [Fin (1 / 2), Fin (1 / 2)] = Inr (c2, 20000)"
    and s2: "samples c2 = (Fin (3 / 10 * (1 / 10002) + 1 / 10 * (1 - 1 / 10002)), v2, q2) # rest2"
    by auto
  from s1 s2 have "samples c1 \<noteq> samples c2" by simp
  with r1 r2 show ?thesis by simp
qed

subsection \<open>The main program\<close>

















end
